theory Spec2Isabelle
  imports Main
begin

section \<open>Values shared by the scheduler and the stores\<close>

text \<open>
  The monitor status strings of the Monitor schema (\<^verbatim>\<open>'up'\<close>, \<^verbatim>\<open>'down'\<close>,
  \<^verbatim>\<open>'degraded'\<close>, \<^verbatim>\<open>'pending'\<close>). Object ids are natural numbers; times are
  milliseconds since the epoch, as \<^verbatim>\<open>Date.now()\<close> returns them.
\<close>

datatype status = Pending | Up | Down | Degraded

text \<open>
  JavaScript's \<^verbatim>\<open>x || d\<close> on an optional number: \<^verbatim>\<open>undefined\<close>, \<^verbatim>\<open>null\<close>
  and \<^verbatim>\<open>0\<close> are falsy and give the default.
\<close>

definition num_or :: "int option \<Rightarrow> int \<Rightarrow> int" where
  "num_or x d = (case x of None \<Rightarrow> d | Some v \<Rightarrow> if v = 0 then d else v)"

text \<open>The same for an optional string: \<^verbatim>\<open>null\<close> and the empty string are falsy.\<close>

definition str_or :: "string option \<Rightarrow> string \<Rightarrow> string" where
  "str_or x d = (case x of None \<Rightarrow> d | Some v \<Rightarrow> if v = [] then d else v)"

section \<open>The monitor document (models/Monitor)\<close>

record monitor =
  m_id :: nat
  m_teamId :: nat
  m_name :: string
  m_url :: string
  m_method :: string
  m_intervalSec :: int
  m_expectedCode :: int
  m_timeout :: int
  m_headers :: "(string \<times> string) list"
  m_body :: string
  m_alertAfterFailures :: "int option"
  m_active :: bool
  m_lastStatus :: "status option"
  m_lastResponseMs :: "int option"
  m_lastError :: "string option"
  m_consecutiveFailures :: "int option"
  m_currentIncidentId :: "nat option"
  m_totalChecks :: "int option"
  m_sslDaysRemaining :: "int option"

section \<open>The scheduling cache (workers/workerCache.js)\<close>

record cache_entry =
  monitorId :: nat
  teamId :: nat
  url :: string
  httpMethod :: string
  intervalSec :: int
  expectedCode :: int
  timeout :: int
  headers :: "(string \<times> string) list"
  body :: string
  alertAfterFailures :: "int option"
  nextRunAt :: int
  lastStatus :: status
  lastResponseMs :: int
  consecutiveFailures :: int
  active :: bool

type_synonym cache = "nat \<rightharpoonup> cache_entry"

text \<open>\<^verbatim>\<open>addMonitor(monitor)\<close>; \<open>now\<close> is the value of \<^verbatim>\<open>Date.now()\<close>.\<close>

definition addMonitor :: "int \<Rightarrow> monitor \<Rightarrow> cache \<Rightarrow> cache" where
  "addMonitor now monitor c =
     (if \<not> m_active monitor then c
      else c(m_id monitor \<mapsto>
        \<lparr> monitorId = m_id monitor, teamId = m_teamId monitor,
          url = m_url monitor, httpMethod = m_method monitor,
          intervalSec = m_intervalSec monitor,
          expectedCode = m_expectedCode monitor, timeout = m_timeout monitor,
          headers = m_headers monitor, body = m_body monitor,
          alertAfterFailures = m_alertAfterFailures monitor,
          nextRunAt = now,
          lastStatus = (case m_lastStatus monitor of None \<Rightarrow> Pending | Some s \<Rightarrow> s),
          lastResponseMs = num_or (m_lastResponseMs monitor) 0,
          consecutiveFailures = num_or (m_consecutiveFailures monitor) 0,
          active = True \<rparr>))"

text \<open>\<^verbatim>\<open>removeMonitor(monitorId)\<close>: \<^verbatim>\<open>this.cache.delete(monitorId)\<close>.\<close>

definition removeMonitor :: "nat \<Rightarrow> cache \<Rightarrow> cache" where
  "removeMonitor mid c = c(mid := None)"

text \<open>
  \<^verbatim>\<open>updateMonitor(monitor)\<close>: the entry is looked up first, an inactive monitor is
  removed, otherwise the entry is rebuilt from the document and the four scheduling
  fields are taken from the existing entry when there is one.
\<close>

definition updateMonitor :: "int \<Rightarrow> monitor \<Rightarrow> cache \<Rightarrow> cache" where
  "updateMonitor now monitor c =
     (let existing = c (m_id monitor) in
      if \<not> m_active monitor then removeMonitor (m_id monitor) c
      else c(m_id monitor \<mapsto>
        \<lparr> monitorId = m_id monitor, teamId = m_teamId monitor,
          url = m_url monitor, httpMethod = m_method monitor,
          intervalSec = m_intervalSec monitor,
          expectedCode = m_expectedCode monitor, timeout = m_timeout monitor,
          headers = m_headers monitor, body = m_body monitor,
          alertAfterFailures = m_alertAfterFailures monitor,
          nextRunAt = (case existing of Some e \<Rightarrow> nextRunAt e | None \<Rightarrow> now),
          lastStatus = (case existing of Some e \<Rightarrow> lastStatus e | None \<Rightarrow> Pending),
          lastResponseMs = (case existing of Some e \<Rightarrow> lastResponseMs e | None \<Rightarrow> 0),
          consecutiveFailures = (case existing of Some e \<Rightarrow> consecutiveFailures e | None \<Rightarrow> 0),
          active = True \<rparr>))"

text \<open>\<^verbatim>\<open>pauseMonitor(monitorId)\<close>: the entry stays, with \<^verbatim>\<open>active = false\<close>.\<close>

definition pauseMonitor :: "nat \<Rightarrow> cache \<Rightarrow> cache" where
  "pauseMonitor mid c =
     (case c mid of None \<Rightarrow> c | Some e \<Rightarrow> c(mid \<mapsto> e\<lparr>active := False\<rparr>))"

text \<open>\<^verbatim>\<open>resumeMonitor(monitor)\<close>: a fresh entry, whatever was there.\<close>

definition resumeMonitor :: "int \<Rightarrow> monitor \<Rightarrow> cache \<Rightarrow> cache" where
  "resumeMonitor now monitor c =
     c(m_id monitor \<mapsto>
        \<lparr> monitorId = m_id monitor, teamId = m_teamId monitor,
          url = m_url monitor, httpMethod = m_method monitor,
          intervalSec = m_intervalSec monitor,
          expectedCode = m_expectedCode monitor, timeout = m_timeout monitor,
          headers = m_headers monitor, body = m_body monitor,
          alertAfterFailures = m_alertAfterFailures monitor,
          nextRunAt = now, lastStatus = Pending, lastResponseMs = 0,
          consecutiveFailures = 0, active = True \<rparr>)"

text \<open>
  The object \<^verbatim>\<open>updateAfterCheck\<close> returns. Its failure count and threshold are
  named \<open>r_\<close> because the entry has fields of the same names.
\<close>

record check_outcome =
  statusChanged :: bool
  previousStatus :: status
  newStatus :: status
  r_consecutiveFailures :: int
  r_alertAfterFailures :: "int option"

text \<open>
  \<^verbatim>\<open>updateAfterCheck(monitorId, success, responseMs, nextRunAt)\<close>: the entry is
  mutated in place and the outcome returned; \<^verbatim>\<open>null\<close> (here \<open>None\<close>) when the id
  has no entry.
\<close>

definition updateAfterCheck ::
  "nat \<Rightarrow> bool \<Rightarrow> int \<Rightarrow> int \<Rightarrow> cache \<Rightarrow> check_outcome option \<times> cache" where
  "updateAfterCheck mid success responseMs nextRun c =
     (case c mid of
        None \<Rightarrow> (None, c)
      | Some e \<Rightarrow>
          (let previous = lastStatus e;
               e' = e\<lparr> lastStatus := (if success then Up else Down),
                       lastResponseMs := responseMs,
                       nextRunAt := nextRun,
                       consecutiveFailures :=
                         (if success then 0 else consecutiveFailures e + 1) \<rparr>
           in (Some \<lparr> statusChanged = (previous \<noteq> lastStatus e'),
                       previousStatus = previous,
                       newStatus = lastStatus e',
                       r_consecutiveFailures = consecutiveFailures e',
                       r_alertAfterFailures = alertAfterFailures e' \<rparr>,
               c(mid \<mapsto> e'))))"

text \<open>
  One completed check as the tick loop reports it to the cache: the success flag, the
  response time and the next run time.
\<close>

type_synonym report = "bool \<times> int \<times> int"

fun recordResults :: "nat \<Rightarrow> report list \<Rightarrow> cache \<Rightarrow> cache" where
  "recordResults mid [] c = c"
| "recordResults mid ((success, responseMs, nextRun) # rs) c =
     recordResults mid rs (snd (updateAfterCheck mid success responseMs nextRun c))"

text \<open>The number of failed checks at the end of a sequence, after its last success.\<close>

definition trailingFailures :: "report list \<Rightarrow> nat" where
  "trailingFailures rs = length (takeWhile (\<lambda>r. \<not> fst r) (rev rs))"

section \<open>Incidents, alerts and the document store\<close>

datatype incident_status = Investigating | Identified | Monitoring | Resolved

datatype incident_severity = Minor | Major | Critical

datatype incident_type = Auto | Manual

text \<open>
  A timeline entry keeps its status and message; the creation time and author that
  the schema also stores play no part in what follows.
\<close>

record timeline_entry =
  t_status :: incident_status
  t_message :: string

record incident =
  i_id :: nat
  i_teamId :: nat
  i_monitorId :: "nat option"
  title :: string
  description :: string
  i_status :: incident_status
  severity :: incident_severity
  i_type :: incident_type
  timeline :: "timeline_entry list"
  startedAt :: int
  resolvedAt :: "int option"
  duration :: "int option"

datatype alert_type = AlertDown | AlertUp | AlertSslExpiry | AlertIncident

text \<open>
  A request to the alert sink (\<^verbatim>\<open>alertService.sendAlert\<close> in the timer mode, an
  alert job in the queue mode). The team name, which both modes only read from the
  Team collection and copy into the payload, is left out.
\<close>

record alert =
  a_type :: alert_type
  a_teamId :: nat
  a_monitorId :: "nat option"
  a_monitorName :: string
  a_url :: string
  a_error :: "string option"
  a_responseMs :: "int option"
  a_downtimeDuration :: "int option"
  a_daysRemaining :: "int option"
  a_expiryDate :: "int option"

record history_entry =
  h_monitorId :: nat
  h_success :: bool
  h_statusCode :: "int option"
  h_responseMs :: int
  h_error :: "string option"

text \<open>
  The collections the workers read and write, with the alert requests made so far.
  \<open>nextIncidentId\<close> stands for the fresh \<^verbatim>\<open>_id\<close> the database gives a new
  document.
\<close>

record store =
  monitors :: "nat \<rightharpoonup> monitor"
  incidents :: "incident list"
  nextIncidentId :: nat
  history :: "history_entry list"
  alerts :: "alert list"

text \<open>
  The values the wall clock returns at the places where the code reads it:
  \<open>at_create\<close> is the default \<^verbatim>\<open>startedAt\<close> of a created incident,
  \<open>at_resolved\<close> the \<^verbatim>\<open>new Date()\<close> assigned to \<^verbatim>\<open>resolvedAt\<close>,
  \<open>at_duration\<close> the second \<^verbatim>\<open>new Date()\<close>, from which the duration is
  computed, \<open>at_downtime\<close> the \<^verbatim>\<open>Date.now()\<close> of the queue mode's downtime,
  and \<open>at_save\<close> the \<^verbatim>\<open>new Date()\<close> of the schema's save hook.
\<close>

record clock_reads =
  at_create :: int
  at_resolved :: int
  at_duration :: int
  at_downtime :: int
  at_save :: int

text \<open>\<^verbatim>\<open>incidentSchema.pre('save')\<close> of models/Incident.js.\<close>

definition pre_save :: "int \<Rightarrow> incident \<Rightarrow> incident" where
  "pre_save now inc =
     (if i_status inc = Resolved \<and> resolvedAt inc = None
      then inc\<lparr> resolvedAt := Some now, duration := Some (now - startedAt inc) \<rparr>
      else inc)"

text \<open>\<^verbatim>\<open>Incident.findById\<close>.\<close>

definition findIncident :: "nat \<Rightarrow> store \<Rightarrow> incident option" where
  "findIncident iid s = find (\<lambda>i. i_id i = iid) (incidents s)"

text \<open>\<^verbatim>\<open>incident.save()\<close>: the hook runs, then the stored document is replaced.\<close>

definition saveIncident :: "int \<Rightarrow> incident \<Rightarrow> store \<Rightarrow> store" where
  "saveIncident now inc s =
     s\<lparr> incidents :=
          map (\<lambda>i. if i_id i = i_id inc then pre_save now inc else i) (incidents s) \<rparr>"

text \<open>\<^verbatim>\<open>Monitor.findByIdAndUpdate(id, {currentIncidentId: v})\<close>.\<close>

definition setCurrentIncident :: "nat \<Rightarrow> nat option \<Rightarrow> store \<Rightarrow> store" where
  "setCurrentIncident mid v s =
     (case monitors s mid of
        None \<Rightarrow> s
      | Some m \<Rightarrow> s\<lparr> monitors := (monitors s)(mid \<mapsto> m\<lparr> m_currentIncidentId := v \<rparr>) \<rparr>)"

text \<open>The arguments of \<^verbatim>\<open>handleStatusChange\<close> in both workers.\<close>

record status_params =
  p_monitor :: monitor
  p_previousStatus :: "status option"
  p_newStatus :: status
  p_statusChanged :: bool
  p_consecutiveFailures :: int
  p_error :: "string option"
  p_responseMs :: int
  p_teamId :: nat

text \<open>\<^verbatim>\<open>monitor.alertAfterFailures || 1\<close>.\<close>

definition alertThreshold :: "monitor \<Rightarrow> int" where
  "alertThreshold monitor = num_or (m_alertAfterFailures monitor) 1"

text \<open>
  \<^verbatim>\<open>Incident.create({...})\<close> as both workers call it for a monitor that went down.
  The returned pair is the created document and the store holding it.
\<close>

definition createDownIncident :: "clock_reads \<Rightarrow> status_params \<Rightarrow> store \<Rightarrow> incident \<times> store" where
  "createDownIncident clk p s =
     (let monitor = p_monitor p;
          inc = pre_save (at_save clk)
            \<lparr> i_id = nextIncidentId s, i_teamId = p_teamId p, i_monitorId = Some (m_id monitor),
              title = m_name monitor @ '' is down'',
              description = str_or (p_error p) ''Monitor is not responding'',
              i_status = Investigating, severity = Major, i_type = Auto,
              timeline = [\<lparr> t_status = Investigating,
                t_message = ''Detected: '' @ str_or (p_error p) ''Monitor stopped responding'' \<rparr>],
              startedAt = at_create clk, resolvedAt = None, duration = None \<rparr>
      in (inc, s\<lparr> incidents := incidents s @ [inc], nextIncidentId := Suc (nextIncidentId s) \<rparr>))"

section \<open>The state machine of the timer-driven worker (workers/worker.js)\<close>

text \<open>The body of the first \<^verbatim>\<open>if\<close> of \<^verbatim>\<open>handleStatusChange\<close> in worker.js.\<close>

definition openIncident_timer :: "clock_reads \<Rightarrow> status_params \<Rightarrow> store \<Rightarrow> store" where
  "openIncident_timer clk p s =
     (let monitor = p_monitor p;
          (inc, s1) = createDownIncident clk p s;
          s2 = setCurrentIncident (m_id monitor) (Some (i_id inc)) s1
      in s2\<lparr> alerts := alerts s2 @
           [\<lparr> a_type = AlertDown, a_teamId = p_teamId p, a_monitorId = None,
              a_monitorName = m_name monitor, a_url = m_url monitor, a_error = p_error p,
              a_responseMs = None, a_downtimeDuration = None, a_daysRemaining = None,
              a_expiryDate = None \<rparr>] \<rparr>)"

text \<open>
  The body of the second \<^verbatim>\<open>if\<close> in worker.js. The incident is resolved with two
  readings of the clock, \<^verbatim>\<open>incident.resolvedAt = new Date()\<close> and
  \<^verbatim>\<open>incident.duration = new Date() - incident.startedAt\<close>; the pair returned by the
  inner \<open>case\<close> is the store and \<^verbatim>\<open>downtimeDuration\<close>.
\<close>

definition recover_timer :: "clock_reads \<Rightarrow> status_params \<Rightarrow> store \<Rightarrow> store" where
  "recover_timer clk p s =
     (let monitor = p_monitor p;
          (s2, downtimeDuration) =
            (case m_currentIncidentId monitor of
               None \<Rightarrow> (s, None)
             | Some iid \<Rightarrow>
                 (let (s1, d) =
                        (case findIncident iid s of
                           None \<Rightarrow> (s, None)
                         | Some incident \<Rightarrow>
                             if i_status incident \<noteq> Resolved
                             then (let incident' = incident
                                         \<lparr> i_status := Resolved,
                                           resolvedAt := Some (at_resolved clk),
                                           duration := Some (at_duration clk - startedAt incident),
                                           timeline := timeline incident @
                                             [\<lparr> t_status = Resolved,
                                                t_message = ''Automatically resolved - Monitor is back online'' \<rparr>] \<rparr>
                                   in (saveIncident (at_save clk) incident' s,
                                       duration (pre_save (at_save clk) incident')))
                             else (s, None))
                  in (setCurrentIncident (m_id monitor) None s1, d)))
      in s2\<lparr> alerts := alerts s2 @
           [\<lparr> a_type = AlertUp, a_teamId = p_teamId p, a_monitorId = None,
              a_monitorName = m_name monitor, a_url = m_url monitor, a_error = None,
              a_responseMs = Some (p_responseMs p), a_downtimeDuration = downtimeDuration,
              a_daysRemaining = None, a_expiryDate = None \<rparr>] \<rparr>)"

text \<open>\<^verbatim>\<open>handleStatusChange(params)\<close> of worker.js.\<close>

definition handleStatusChange_timer :: "clock_reads \<Rightarrow> status_params \<Rightarrow> store \<Rightarrow> store" where
  "handleStatusChange_timer clk p s =
     (let monitor = p_monitor p;
          isThresholdReached = (p_consecutiveFailures p = alertThreshold monitor);
          isAlreadyDownMissingIncident =
            (p_newStatus p = Down \<and> p_consecutiveFailures p > alertThreshold monitor
               \<and> m_currentIncidentId monitor = None);
          s1 = (if (p_newStatus p = Down \<and> isThresholdReached) \<or> isAlreadyDownMissingIncident
                then openIncident_timer clk p s else s)
      in if p_statusChanged p \<and> p_newStatus p = Up \<and> p_previousStatus p = Some Down
         then recover_timer clk p s1 else s1)"

section \<open>The state machine of the queue-backed worker (workers/bullWorker.js)\<close>

text \<open>The body of the first \<^verbatim>\<open>if\<close> of \<^verbatim>\<open>handleStatusChange\<close> in bullWorker.js.\<close>

definition openIncident_queue :: "clock_reads \<Rightarrow> status_params \<Rightarrow> store \<Rightarrow> store" where
  "openIncident_queue clk p s =
     (let monitor = p_monitor p;
          (inc, s1) = createDownIncident clk p s;
          s2 = setCurrentIncident (m_id monitor) (Some (i_id inc)) s1
      in s2\<lparr> alerts := alerts s2 @
           [\<lparr> a_type = AlertDown, a_teamId = p_teamId p, a_monitorId = Some (m_id monitor),
              a_monitorName = m_name monitor, a_url = m_url monitor, a_error = p_error p,
              a_responseMs = None, a_downtimeDuration = None, a_daysRemaining = None,
              a_expiryDate = None \<rparr>] \<rparr>)"

text \<open>
  The body of the second \<^verbatim>\<open>if\<close> in bullWorker.js. The downtime is computed after
  the link has been cleared in the database, from the \<^verbatim>\<open>monitor\<close> object the caller
  passed in, which still carries the incident id.
\<close>

definition recover_queue :: "clock_reads \<Rightarrow> status_params \<Rightarrow> store \<Rightarrow> store" where
  "recover_queue clk p s =
     (let monitor = p_monitor p;
          s2 = (case m_currentIncidentId monitor of
                  None \<Rightarrow> s
                | Some iid \<Rightarrow>
                    (let s1 =
                           (case findIncident iid s of
                              None \<Rightarrow> s
                            | Some incident \<Rightarrow>
                                if i_status incident \<noteq> Resolved
                                then saveIncident (at_save clk)
                                       (incident
                                         \<lparr> i_status := Resolved,
                                           resolvedAt := Some (at_resolved clk),
                                           duration := Some (at_duration clk - startedAt incident),
                                           timeline := timeline incident @
                                             [\<lparr> t_status = Resolved,
                                                t_message = ''Automatically resolved - Monitor is back online'' \<rparr>] \<rparr>) s
                                else s)
                     in setCurrentIncident (m_id monitor) None s1));
          startTime = (case m_currentIncidentId monitor of
                         None \<Rightarrow> None
                       | Some iid \<Rightarrow> map_option startedAt (findIncident iid s2));
          downtimeDuration = map_option (\<lambda>t. at_downtime clk - t) startTime
      in s2\<lparr> alerts := alerts s2 @
           [\<lparr> a_type = AlertUp, a_teamId = p_teamId p, a_monitorId = Some (m_id monitor),
              a_monitorName = m_name monitor, a_url = m_url monitor, a_error = None,
              a_responseMs = Some (p_responseMs p), a_downtimeDuration = downtimeDuration,
              a_daysRemaining = None, a_expiryDate = None \<rparr>] \<rparr>)"

text \<open>\<^verbatim>\<open>handleStatusChange(params)\<close> of bullWorker.js.\<close>

definition handleStatusChange_queue :: "clock_reads \<Rightarrow> status_params \<Rightarrow> store \<Rightarrow> store" where
  "handleStatusChange_queue clk p s =
     (let monitor = p_monitor p;
          s1 = (if p_newStatus p = Down \<and> p_consecutiveFailures p = alertThreshold monitor
                then openIncident_queue clk p s else s)
      in if p_statusChanged p \<and> p_newStatus p = Up \<and> p_previousStatus p = Some Down
         then recover_queue clk p s1 else s1)"

section \<open>Check results and the two check pipelines\<close>

text \<open>
  The SSL metadata \<^verbatim>\<open>getSslInfo\<close> resolves to, and the uniform result object of
  the check executors.
\<close>

record ssl_info =
  expiresAt :: int
  daysRemaining :: int
  issuer :: string

record check_result =
  success :: bool
  statusCode :: "int option"
  responseMs :: int
  error :: "string option"
  keywordFound :: bool
  sslInfo :: "ssl_info option"

text \<open>
  \<^verbatim>\<open>Math.ceil((expiryDate - now) / (1000 * 60 * 60 * 24))\<close> of \<^verbatim>\<open>getSslInfo\<close>,
  on integer milliseconds.
\<close>

definition sslDaysRemaining :: "int \<Rightarrow> int \<Rightarrow> int" where
  "sslDaysRemaining expiryDate now = - ((now - expiryDate) div (1000 * 60 * 60 * 24))"

text \<open>\<^verbatim>\<open>Monitor.findByIdAndUpdate(id, update)\<close> with an arbitrary update.\<close>

definition updateMonitorDoc :: "nat \<Rightarrow> (monitor \<Rightarrow> monitor) \<Rightarrow> store \<Rightarrow> store" where
  "updateMonitorDoc mid f s =
     (case monitors s mid of
        None \<Rightarrow> s
      | Some m \<Rightarrow> s\<lparr> monitors := (monitors s)(mid \<mapsto> f m) \<rparr>)"

text \<open>
  \<^verbatim>\<open>checkMonitor(monitorData)\<close> of worker.js from the line that computes
  \<^verbatim>\<open>nextRunAt\<close> on; the HTTP request before it is represented by its result
  \<open>r\<close>, and \<open>now\<close> is the \<^verbatim>\<open>Date.now()\<close> of that line. A \<^verbatim>\<open>null\<close> cache
  result or a monitor that is no longer stored raises a TypeError, which the
  surrounding \<^verbatim>\<open>try\<close> catches after the monitor and history writes.
\<close>

definition checkMonitor ::
  "clock_reads \<Rightarrow> int \<Rightarrow> cache_entry \<Rightarrow> check_result \<Rightarrow> cache \<times> store \<Rightarrow> cache \<times> store" where
  "checkMonitor clk now monitorData r cs =
     (let nextRun = now + intervalSec monitorData * 1000;
          (result, c') = updateAfterCheck (monitorId monitorData) (success r) (responseMs r)
                           nextRun (fst cs);
          s1 = updateMonitorDoc (monitorId monitorData)
                 (\<lambda>m. m\<lparr> m_lastStatus := Some (if success r then Up else Down),
                          m_lastResponseMs := Some (responseMs r),
                          m_lastError := error r,
                          m_consecutiveFailures :=
                            Some (case result of Some out \<Rightarrow> r_consecutiveFailures out
                                  | None \<Rightarrow> 0) \<rparr>) (snd cs);
          s2 = s1\<lparr> history := history s1 @
                 [\<lparr> h_monitorId = monitorId monitorData, h_success = success r,
                    h_statusCode = statusCode r, h_responseMs = responseMs r,
                    h_error = error r \<rparr>] \<rparr>
      in case monitors s2 (monitorId monitorData) of
           None \<Rightarrow> (c', s2)
         | Some monitor \<Rightarrow>
             (case result of
                None \<Rightarrow> (c', s2)
              | Some out \<Rightarrow>
                  (c', handleStatusChange_timer clk
                         \<lparr> p_monitor = monitor,
                           p_previousStatus = Some (previousStatus out),
                           p_newStatus = newStatus out,
                           p_statusChanged = statusChanged out,
                           p_consecutiveFailures = r_consecutiveFailures out,
                           p_error = error r,
                           p_responseMs = responseMs r,
                           p_teamId = teamId monitorData \<rparr> s2)))"

text \<open>
  The transition data \<^verbatim>\<open>processMonitorCheck\<close> of bullWorker.js computes from the
  stored monitor and the check result, as it passes them to \<^verbatim>\<open>handleStatusChange\<close>.
\<close>

definition queueParams :: "monitor \<Rightarrow> nat \<Rightarrow> check_result \<Rightarrow> status_params" where
  "queueParams monitor tid r =
     (let new = (if success r then Up else Down);
          previous = m_lastStatus monitor;
          changed = (previous \<noteq> Some new \<and> previous \<noteq> Some Pending);
          failures0 = num_or (m_consecutiveFailures monitor) 0;
          failures = (if success r then 0 else failures0 + 1)
      in \<lparr> p_monitor = monitor, p_previousStatus = previous, p_newStatus = new,
           p_statusChanged = changed, p_consecutiveFailures = failures,
           p_error = error r, p_responseMs = responseMs r, p_teamId = tid \<rparr>)"

text \<open>\<^verbatim>\<open>handleSslExpiryAlert(monitor, sslInfo, teamId)\<close> of bullWorker.js.\<close>

definition alertDays :: "int list" where
  "alertDays = [30, 14, 7, 3, 1]"

definition handleSslExpiryAlert :: "monitor \<Rightarrow> ssl_info \<Rightarrow> nat \<Rightarrow> store \<Rightarrow> store" where
  "handleSslExpiryAlert monitor info tid s =
     (if daysRemaining info \<in> set alertDays
      then s\<lparr> alerts := alerts s @
             [\<lparr> a_type = AlertSslExpiry, a_teamId = tid, a_monitorId = Some (m_id monitor),
                a_monitorName = m_name monitor, a_url = m_url monitor, a_error = None,
                a_responseMs = None, a_downtimeDuration = None,
                a_daysRemaining = Some (daysRemaining info),
                a_expiryDate = Some (expiresAt info) \<rparr>] \<rparr>
      else s)"

text \<open>
  \<^verbatim>\<open>processMonitorCheck(data)\<close> of bullWorker.js after \<^verbatim>\<open>performCheck\<close> has
  returned \<open>r\<close>. The \<open>monitor\<close> passed on is the document read before the update.
\<close>

definition processMonitorCheck ::
  "clock_reads \<Rightarrow> nat \<Rightarrow> nat \<Rightarrow> check_result \<Rightarrow> store \<Rightarrow> store" where
  "processMonitorCheck clk mid tid r s =
     (case monitors s mid of
        None \<Rightarrow> s
      | Some monitor \<Rightarrow>
          (let p = queueParams monitor tid r;
               s1 = updateMonitorDoc mid
                      (\<lambda>m. m\<lparr> m_lastStatus := Some (p_newStatus p),
                               m_lastResponseMs := Some (responseMs r),
                               m_lastError := error r,
                               m_consecutiveFailures := Some (p_consecutiveFailures p),
                               m_totalChecks := Some (num_or (m_totalChecks monitor) 0 + 1),
                               m_sslDaysRemaining :=
                                 (case sslInfo r of None \<Rightarrow> m_sslDaysRemaining m
                                  | Some info \<Rightarrow> Some (daysRemaining info)) \<rparr>) s;
               s2 = s1\<lparr> history := history s1 @
                      [\<lparr> h_monitorId = mid, h_success = success r,
                         h_statusCode = statusCode r, h_responseMs = responseMs r,
                         h_error = error r \<rparr>] \<rparr>;
               s3 = handleStatusChange_queue clk p s2
           in case sslInfo r of
                None \<Rightarrow> s3
              | Some info \<Rightarrow>
                  if daysRemaining info \<le> 30 then handleSslExpiryAlert monitor info tid s3
                  else s3))"

text \<open>A run of the queue worker over the successive check results of one monitor.\<close>

fun processChecks :: "clock_reads \<Rightarrow> nat \<Rightarrow> nat \<Rightarrow> check_result list \<Rightarrow> store \<Rightarrow> store" where
  "processChecks clk mid tid [] s = s"
| "processChecks clk mid tid (r # rs) s =
     processChecks clk mid tid rs (processMonitorCheck clk mid tid r s)"

definition sslAlerts :: "store \<Rightarrow> alert list" where
  "sslAlerts s = filter (\<lambda>a. a_type a = AlertSslExpiry) (alerts s)"

section \<open>The alert dispatcher (services/alerts)\<close>

datatype channel_type = Email | Telegram | Webhook | Slack | Discord | OtherChannel

record channel_config =
  emails :: "string list"
  telegramBotToken :: string
  telegramChatId :: string
  webhookUrl :: string

record notify_flags =
  n_down :: bool
  n_up :: bool
  n_degraded :: bool
  n_sslExpiry :: bool

record alert_channel =
  ch_id :: nat
  ch_teamId :: nat
  ch_type :: channel_type
  enabled :: bool
  config :: channel_config
  notifyOn :: notify_flags
  cooldownMinutes :: int
  lastAlertAt :: "int option"
  alertsSent :: int
  lastError :: "string option"

text \<open>
  What \<^verbatim>\<open>sendEmailAlert\<close>, \<^verbatim>\<open>sendTelegramAlert\<close>, \<^verbatim>\<open>sendWebhookAlert\<close>,
  \<^verbatim>\<open>sendSlackAlert\<close> and \<^verbatim>\<open>sendDiscordAlert\<close> do before they call a sender:
  \<open>Inl\<close> is the message of the error thrown, \<open>Inr True\<close> a call of the channel's
  sender, \<open>Inr False\<close> a return without one (Slack and Discord on \<^verbatim>\<open>'incident'\<close>).
  The dispatcher module requires the email, Telegram, Slack and Discord services but no
  \<^verbatim>\<open>webhookService\<close>, so a configured webhook channel ends in a ReferenceError at
  the first use of that name.
\<close>

definition prepareSend :: "channel_type \<Rightarrow> channel_config \<Rightarrow> alert_type \<Rightarrow> string + bool" where
  "prepareSend ty cfg alertType =
     (case ty of
        Email \<Rightarrow>
          if emails cfg = [] then Inl ''No email addresses configured''
          else if alertType = AlertIncident then Inl ''Unknown alert type for email: incident''
          else Inr True
      | Telegram \<Rightarrow>
          if telegramBotToken cfg = [] \<or> telegramChatId cfg = [] then Inl ''Telegram not configured''
          else Inr True
      | Webhook \<Rightarrow>
          if webhookUrl cfg = [] then Inl ''Webhook URL not configured''
          else Inl ''webhookService is not defined''
      | Slack \<Rightarrow>
          if webhookUrl cfg = [] then Inl ''Slack Webhook URL not configured''
          else Inr (alertType \<noteq> AlertIncident)
      | Discord \<Rightarrow>
          if webhookUrl cfg = [] then Inl ''Discord Webhook URL not configured''
          else Inr (alertType \<noteq> AlertIncident)
      | OtherChannel \<Rightarrow> Inl ''Unknown channel type'')"

text \<open>
  The outcome of \<^verbatim>\<open>sendToChannel\<close>: the channel as saved, whether a sender was
  called (a delivery attempt), and whether the promise was fulfilled.
\<close>

record send_outcome =
  o_channel :: alert_channel
  o_attempted :: bool
  o_fulfilled :: bool

text \<open>
  \<^verbatim>\<open>sendToChannel(channel, alertType, data)\<close>. \<open>sender\<close> stands for the external
  senders: \<open>None\<close> when the call returns, \<open>Some msg\<close> when it throws. \<open>now\<close> is
  the \<^verbatim>\<open>new Date()\<close> stored in \<^verbatim>\<open>lastAlertAt\<close>.
\<close>

definition sendToChannel ::
  "int \<Rightarrow> (alert_channel \<Rightarrow> string option) \<Rightarrow> alert_channel \<Rightarrow> alert_type \<Rightarrow> send_outcome" where
  "sendToChannel now sender channel alertType =
     (let sent = channel\<lparr> alertsSent := alertsSent channel + 1, lastAlertAt := Some now,
                          lastError := None \<rparr>
      in case prepareSend (ch_type channel) (config channel) alertType of
           Inl msg \<Rightarrow> \<lparr> o_channel = channel\<lparr> lastError := Some msg \<rparr>,
                        o_attempted = False, o_fulfilled = False \<rparr>
         | Inr False \<Rightarrow> \<lparr> o_channel = sent, o_attempted = False, o_fulfilled = True \<rparr>
         | Inr True \<Rightarrow>
             (case sender channel of
                None \<Rightarrow> \<lparr> o_channel = sent, o_attempted = True, o_fulfilled = True \<rparr>
              | Some msg \<Rightarrow> \<lparr> o_channel = channel\<lparr> lastError := Some msg \<rparr>,
                             o_attempted = True, o_fulfilled = False \<rparr>))"

text \<open>The query of \<^verbatim>\<open>sendAlert\<close>: the team's enabled channels subscribed to the event.\<close>

definition subscribed :: "nat \<Rightarrow> alert_type \<Rightarrow> alert_channel \<Rightarrow> bool" where
  "subscribed tid alertType ch =
     (ch_teamId ch = tid \<and> enabled ch \<and>
      (case alertType of
         AlertDown \<Rightarrow> n_down (notifyOn ch)
       | AlertUp \<Rightarrow> n_up (notifyOn ch)
       | AlertSslExpiry \<Rightarrow> n_sslExpiry (notifyOn ch)
       | AlertIncident \<Rightarrow> False))"

text \<open>
  \<^verbatim>\<open>sendAlert(teamId, alertType, data)\<close>: every selected channel is sent to and
  its outcome settled by itself. The result is the channel collection afterwards with
  the ids of the channels a sender was called for, in order.
\<close>

fun sendAlert ::
  "int \<Rightarrow> (alert_channel \<Rightarrow> string option) \<Rightarrow> nat \<Rightarrow> alert_type \<Rightarrow> alert_channel list
     \<Rightarrow> alert_channel list \<times> nat list" where
  "sendAlert now sender tid alertType [] = ([], [])"
| "sendAlert now sender tid alertType (ch # chs) =
     (let (chs', ds) = sendAlert now sender tid alertType chs
      in if subscribed tid alertType ch
         then (let out = sendToChannel now sender ch alertType
               in (o_channel out # chs', (if o_attempted out then [ch_id ch] else []) @ ds))
         else (ch # chs', ds))"

section \<open>Strings and numbers as the check executors use them\<close>

text \<open>
  The function \<^verbatim>\<open>String.prototype.toLowerCase\<close> computes on text whose characters
  are all ASCII: the letters A to Z are folded, every other character is kept. On
  other text the built-in folds more letters; the keyword check below therefore takes
  the lowering function as an argument, and this one is used for ASCII samples only.
\<close>

definition lowerChar :: "char \<Rightarrow> char" where
  "lowerChar c =
     (let n = (of_char c :: nat) in if 65 \<le> n \<and> n \<le> 90 then char_of (n + 32) else c)"

definition asciiLowerCase :: "string \<Rightarrow> string" where
  "asciiLowerCase s = map lowerChar s"

text \<open>\<^verbatim>\<open>body.includes(keyword)\<close>: the keyword occurs at some position of the body.\<close>

fun includesStr :: "string \<Rightarrow> string \<Rightarrow> bool" where
  "includesStr [] kw = (kw = [])"
| "includesStr (c # cs) kw = (take (length kw) (c # cs) = kw \<or> includesStr cs kw)"

text \<open>Decimal digits of a number, as a template literal prints a status code.\<close>

function showNat :: "nat \<Rightarrow> string" where
  "showNat n = (if n < 10 then [char_of (48 + n)]
                else showNat (n div 10) @ [char_of (48 + n mod 10)])"
  by pat_completeness auto
termination
  by (relation "measure id") auto

declare showNat.simps [simp del]

definition showInt :: "int \<Rightarrow> string" where
  "showInt i = (if i < 0 then CHR ''-'' # showNat (nat (- i)) else showNat (nat i))"

section \<open>The keyword check (workers/checks/keyword.js)\<close>

text \<open>
  What \<^verbatim>\<open>axios\<close> gives back: a completed response with its status and body
  (\<^verbatim>\<open>validateStatus: () => true\<close>, so every status resolves), or a thrown error with
  its code or message. A body that is not a string is carried by its
  \<^verbatim>\<open>JSON.stringify\<close> text.
\<close>

datatype response_data = TextData string | JsonData string

datatype http_outcome = Completed int response_data | Failed "string option"

text \<open>The two monitor fields \<^verbatim>\<open>checkKeyword\<close> reads after the request.\<close>

record keyword_snapshot =
  keyword :: "string option"
  keywordType :: "string option"

text \<open>
  \<^verbatim>\<open>checkKeyword(monitor)\<close>; \<open>toLowerCase\<close> is the built-in
  \<^verbatim>\<open>String.prototype.toLowerCase\<close>, which the check applies to the body and to
  the keyword, and \<open>elapsed\<close> is \<^verbatim>\<open>Date.now() - startTime\<close>.
\<close>

definition checkKeyword ::
  "(string \<Rightarrow> string) \<Rightarrow> keyword_snapshot \<Rightarrow> int \<Rightarrow> http_outcome \<Rightarrow> check_result" where
  "checkKeyword toLowerCase monitor elapsed outcome =
     (case outcome of
        Failed msg \<Rightarrow>
          \<lparr> success = False, statusCode = None, responseMs = elapsed,
            error = Some (str_or msg ''Request failed''), keywordFound = False, sslInfo = None \<rparr>
      | Completed code dat \<Rightarrow>
          if code < 200 \<or> code \<ge> 400
          then \<lparr> success = False, statusCode = Some code, responseMs = elapsed,
                 error = Some (''HTTP '' @ showInt code), keywordFound = False, sslInfo = None \<rparr>
          else
            (let body = (case dat of TextData t \<Rightarrow> t | JsonData j \<Rightarrow> j);
                 kwType = str_or (keywordType monitor) ''contains''
             in case keyword monitor of
                  None \<Rightarrow> \<lparr> success = False, statusCode = Some code, responseMs = elapsed,
                             error = Some ''No keyword specified'', keywordFound = False,
                             sslInfo = None \<rparr>
                | Some kw \<Rightarrow>
                    if kw = []
                    then \<lparr> success = False, statusCode = Some code, responseMs = elapsed,
                           error = Some ''No keyword specified'', keywordFound = False,
                           sslInfo = None \<rparr>
                    else
                      (let found = includesStr (toLowerCase body) (toLowerCase kw)
                       in if kwType = ''contains''
                          then \<lparr> success = found, statusCode = Some code, responseMs = elapsed,
                                 error = (if found then None
                                          else Some (''Keyword '' @ [CHR 0x22] @ kw @ [CHR 0x22] @ '' not found'')),
                                 keywordFound = found, sslInfo = None \<rparr>
                          else if kwType = ''not_contains''
                          then \<lparr> success = \<not> found, statusCode = Some code, responseMs = elapsed,
                                 error = (if found
                                          then Some (''Keyword '' @ [CHR 0x22] @ kw @ [CHR 0x22]
                                                 @ '' found (should not be present)'')
                                          else None),
                                 keywordFound = found, sslInfo = None \<rparr>
                          else \<lparr> success = False, statusCode = Some code, responseMs = elapsed,
                                 error = None, keywordFound = found, sslInfo = None \<rparr>)))"

section \<open>Dates as the cron check uses them\<close>

text \<open>
  A \<^verbatim>\<open>Date\<close> is its time value in milliseconds, \<open>None\<close> for an invalid date
  (time value \<^verbatim>\<open>NaN\<close>); a number that may be \<^verbatim>\<open>NaN\<close> is an \<open>int option\<close> in
  the same way.

  The host's time zone is given by its two offset functions, as in the language
  definition: local time is \<^verbatim>\<open>t + LocalTZA(t, true)\<close>, and a local time is turned
  back into a time value by \<^verbatim>\<open>t - LocalTZA(t, false)\<close>. In a zone with daylight
  saving the offsets change with \<open>t\<close>; in a zone without they are one constant.
\<close>

record zone =
  offsetAtUTC :: "int \<Rightarrow> int"
  offsetAtLocal :: "int \<Rightarrow> int"

definition localTime :: "zone \<Rightarrow> int \<Rightarrow> int" where
  "localTime z tv = tv + offsetAtUTC z tv"

definition utcTime :: "zone \<Rightarrow> int \<Rightarrow> int" where
  "utcTime z t = t - offsetAtLocal z t"

definition fixedZone :: "int \<Rightarrow> zone" where
  "fixedZone off = \<lparr> offsetAtUTC = (\<lambda>t. off), offsetAtLocal = (\<lambda>t. off) \<rparr>"

















section \<open>The passive checks (workers/checks/cronjob.js, heartbeat)\<close>


text \<open>The monitor fields \<^verbatim>\<open>checkCronjob\<close> reads.\<close>

record cron_snapshot =
  lastCronRun :: "int option"
  cronGracePeriod :: "int option"
  cronExpression :: "string option"
  expectedCronRun :: "int option"





section \<open>Observations and sample data\<close>

definition downAlerts :: "store \<Rightarrow> alert list" where
  "downAlerts s = filter (\<lambda>a. a_type a = AlertDown) (alerts s)"

text \<open>
  A monitor that alerts after one failure, is already down with one recorded failure
  and has no incident linked, as after a restart or after its incident was deleted.
\<close>

definition sampleMonitor :: monitor where
  "sampleMonitor =
     \<lparr> m_id = 1, m_teamId = 7, m_name = ''api'', m_url = ''https://example.org'',
       m_method = ''GET'', m_intervalSec = 60, m_expectedCode = 200, m_timeout = 30000,
       m_headers = [], m_body = [], m_alertAfterFailures = Some 1, m_active = True,
       m_lastStatus = Some Down, m_lastResponseMs = Some 0, m_lastError = None,
       m_consecutiveFailures = Some 1, m_currentIncidentId = None, m_totalChecks = Some 1,
       m_sslDaysRemaining = None \<rparr>"

text \<open>A monitor that has never been checked, alerting after three failures.\<close>

definition freshMonitor :: monitor where
  "freshMonitor =
     sampleMonitor\<lparr> m_alertAfterFailures := Some 3, m_lastStatus := Some Pending,
       m_consecutiveFailures := Some 0, m_totalChecks := Some 0 \<rparr>"

definition sampleStore :: store where
  "sampleStore =
     \<lparr> monitors = [1 \<mapsto> sampleMonitor], incidents = [], nextIncidentId = 0,
       history = [], alerts = [] \<rparr>"

definition freshStore :: store where
  "freshStore = sampleStore\<lparr> monitors := [1 \<mapsto> freshMonitor] \<rparr>"

text \<open>The cache entry \<^verbatim>\<open>addMonitor\<close> builds for the fresh monitor at time 0.\<close>

definition freshEntry :: cache_entry where
  "freshEntry =
     \<lparr> monitorId = 1, teamId = 7, url = ''https://example.org'', httpMethod = ''GET'',
       intervalSec = 60, expectedCode = 200, timeout = 30000, headers = [], body = [],
       alertAfterFailures = Some 3, nextRunAt = 0, lastStatus = Pending, lastResponseMs = 0,
       consecutiveFailures = 0, active = True \<rparr>"

text \<open>A failed and a successful check.\<close>

definition failedCheck :: check_result where
  "failedCheck =
     \<lparr> success = False, statusCode = Some 500, responseMs = 40,
       error = Some ''Expected 200, got 500'', keywordFound = False, sslInfo = None \<rparr>"

definition passedCheck :: check_result where
  "passedCheck =
     \<lparr> success = True, statusCode = Some 200, responseMs = 150, error = None,
       keywordFound = False, sslInfo = None \<rparr>"

text \<open>
  Clock readings in which one millisecond passes between the two \<^verbatim>\<open>new Date()\<close>
  of the recovery branch.
\<close>

definition sampleClock :: clock_reads where
  "sampleClock =
     \<lparr> at_create = 500, at_resolved = 1000, at_duration = 1001, at_downtime = 1002,
       at_save = 1003 \<rparr>"

text \<open>An open incident of the sample monitor, and a store in which it is linked.\<close>

definition openIncident :: incident where
  "openIncident =
     \<lparr> i_id = 0, i_teamId = 7, i_monitorId = Some 1, title = ''api is down'',
       description = ''Monitor is not responding'', i_status = Investigating,
       severity = Major, i_type = Auto,
       timeline = [\<lparr> t_status = Investigating, t_message = ''Detected: Monitor stopped responding'' \<rparr>],
       startedAt = 0, resolvedAt = None, duration = None \<rparr>"

definition downStore :: store where
  "downStore =
     \<lparr> monitors = [1 \<mapsto> sampleMonitor\<lparr> m_currentIncidentId := Some 0 \<rparr>],
       incidents = [openIncident], nextIncidentId = 1, history = [], alerts = [] \<rparr>"

text \<open>A Telegram channel of team 7 with the default cooldown of five minutes.\<close>

definition sampleChannel :: alert_channel where
  "sampleChannel =
     \<lparr> ch_id = 3, ch_teamId = 7, ch_type = Telegram, enabled = True,
       config = \<lparr> emails = [], telegramBotToken = ''123456:token'', telegramChatId = ''42'',
                  webhookUrl = [] \<rparr>,
       notifyOn = \<lparr> n_down = True, n_up = True, n_degraded = True, n_sslExpiry = True \<rparr>,
       cooldownMinutes = 5, lastAlertAt = None, alertsSent = 0, lastError = None \<rparr>"

text \<open>
  A passed check that saw a certificate expiring at millisecond 2592000000 (thirty
  days after the epoch) when the clock read \<open>now\<close>.
\<close>

definition sslCheckAt :: "int \<Rightarrow> check_result" where
  "sslCheckAt now =
     passedCheck\<lparr> sslInfo := Some \<lparr> expiresAt = 2592000000,
       daysRemaining = sslDaysRemaining 2592000000 now, issuer = ''CA'' \<rparr> \<rparr>"

text \<open>The arguments of the state machine after a failed check that followed a failed one.\<close>

definition downParams :: "monitor \<Rightarrow> int \<Rightarrow> status_params" where
  "downParams m n =
     \<lparr> p_monitor = m, p_previousStatus = Some Down, p_newStatus = Down,
       p_statusChanged = False, p_consecutiveFailures = n, p_error = Some ''ETIMEDOUT'',
       p_responseMs = 40, p_teamId = 7 \<rparr>"

text \<open>The arguments of the state machine after the first passed check of a down monitor.\<close>

definition upParams :: "monitor \<Rightarrow> status_params" where
  "upParams m =
     \<lparr> p_monitor = m, p_previousStatus = Some Down, p_newStatus = Up,
       p_statusChanged = True, p_consecutiveFailures = 0, p_error = None,
       p_responseMs = 150, p_teamId = 7 \<rparr>"

text \<open>A cron monitor with the given expression and grace period that has never reported.\<close>

definition cronSample :: "string \<Rightarrow> int option \<Rightarrow> cron_snapshot" where
  "cronSample expr grace =
     \<lparr> lastCronRun = None, cronGracePeriod = grace, cronExpression = Some expr,
       expectedCronRun = None \<rparr>"




text \<open>
  A check result carries SSL metadata whose days remaining are one of the alert
  thresholds.
\<close>

definition sslThreshold :: "check_result \<Rightarrow> bool" where
  "sslThreshold r =
     (case sslInfo r of None \<Rightarrow> False
      | Some info \<Rightarrow> daysRemaining info \<in> set [30, 14, 7, 3, 1])"

section \<open>Properties of the scheduling cache\<close>

lemma updateAfterCheck_entry:
  assumes "c mid = Some e"
  shows "snd (updateAfterCheck mid ok ms nxt c) mid =
     Some (e\<lparr> lastStatus := (if ok then Up else Down), lastResponseMs := ms,
              nextRunAt := nxt,
              consecutiveFailures := (if ok then 0 else consecutiveFailures e + 1) \<rparr>)"
  using assms by (simp add: updateAfterCheck_def Let_def)

lemma trailingFailures_Cons:
  "trailingFailures (r # rs) =
     (if \<forall>x\<in>set rs. \<not> fst x then (if fst r then length rs else Suc (length rs))
      else trailingFailures rs)"
proof (cases "\<forall>x\<in>set rs. \<not> fst x")
  case True
  then have "takeWhile (\<lambda>r. \<not> fst r) (rev rs @ [r]) = rev rs @ takeWhile (\<lambda>r. \<not> fst r) [r]"
    by (intro takeWhile_append2) simp
  with True show ?thesis by (simp add: trailingFailures_def)
next
  case False
  then obtain x where "x \<in> set (rev rs)" "\<not> \<not> fst x" by auto
  then have "takeWhile (\<lambda>r. \<not> fst r) (rev rs @ [r]) = takeWhile (\<lambda>r. \<not> fst r) (rev rs)"
    by (rule takeWhile_append1)
  then have "trailingFailures (r # rs) = trailingFailures rs"
    by (simp add: trailingFailures_def)
  moreover have "\<not> (\<forall>x\<in>set rs. \<not> fst x)" by (rule False)
  ultimately show ?thesis by (simp only: if_False)
qed

lemma recordResults_failures:
  assumes "c mid = Some e"
  shows "\<exists>e'. recordResults mid rs c mid = Some e' \<and>
     consecutiveFailures e' =
       (if \<forall>r\<in>set rs. \<not> fst r then consecutiveFailures e + int (length rs)
        else int (trailingFailures rs))"
  using assms
proof (induction rs arbitrary: c e)
  case Nil
  then show ?case by simp
next
  case (Cons r rs)
  obtain ok ms nxt where r: "r = (ok, ms, nxt)"
    by (cases r)
  let ?c = "snd (updateAfterCheck mid ok ms nxt c)"
  let ?e = "e\<lparr> lastStatus := (if ok then Up else Down), lastResponseMs := ms,
              nextRunAt := nxt,
              consecutiveFailures := (if ok then 0 else consecutiveFailures e + 1) \<rparr>"
  have step: "?c mid = Some ?e"
    using Cons.prems by (rule updateAfterCheck_entry)
  from Cons.IH [of ?c ?e, OF step] obtain e' where
    e': "recordResults mid rs ?c mid = Some e'"
    and cf: "consecutiveFailures e' =
       (if \<forall>r\<in>set rs. \<not> fst r then consecutiveFailures ?e + int (length rs)
        else int (trailingFailures rs))"
    by blast
  have "consecutiveFailures e' =
       (if \<forall>x\<in>set (r # rs). \<not> fst x then consecutiveFailures e + int (length (r # rs))
        else int (trailingFailures (r # rs)))"
    using cf by (simp add: r trailingFailures_Cons)
  with e' show ?case by (simp add: r)
qed

text \<open>
  C7. The failure counter of a cache entry is never negative: one
  \<^verbatim>\<open>updateAfterCheck\<close> sets it to 0 on success and to the prior value plus 1 on
  failure, and after any sequence of recorded results it is the number of failed
  checks since the last success (added to the starting value when no check of the
  sequence succeeded), so N failures in a row after a success or on a fresh entry give
  exactly N. The queue worker computes the counter it stores in the same way.
\<close>

theorem consecutiveFailures_counts:
  assumes "c mid = Some e" and "0 \<le> consecutiveFailures e"
  shows "(\<exists>e1. snd (updateAfterCheck mid ok ms nxt c) mid = Some e1 \<and>
            consecutiveFailures e1 = (if ok then 0 else consecutiveFailures e + 1)) \<and>
         (\<exists>e'. recordResults mid rs c mid = Some e' \<and> 0 \<le> consecutiveFailures e' \<and>
            consecutiveFailures e' =
              (if \<forall>r\<in>set rs. \<not> fst r then consecutiveFailures e + int (length rs)
               else int (trailingFailures rs))) \<and>
         p_consecutiveFailures (queueParams monitor tid res) =
           (if success res then 0 else num_or (m_consecutiveFailures monitor) 0 + 1)"
proof -
  have one: "\<exists>e1. snd (updateAfterCheck mid ok ms nxt c) mid = Some e1 \<and>
            consecutiveFailures e1 = (if ok then 0 else consecutiveFailures e + 1)"
    using updateAfterCheck_entry [of c mid e ok ms nxt, OF assms(1)] by simp
  from recordResults_failures [of c mid e rs, OF assms(1)] obtain e' where
    e': "recordResults mid rs c mid = Some e'"
    and cf: "consecutiveFailures e' =
       (if \<forall>r\<in>set rs. \<not> fst r then consecutiveFailures e + int (length rs)
        else int (trailingFailures rs))"
    by blast
  have "0 \<le> consecutiveFailures e'"
    using cf assms(2) by (simp split: if_splits)
  with e' cf have many: "\<exists>e'. recordResults mid rs c mid = Some e' \<and> 0 \<le> consecutiveFailures e' \<and>
            consecutiveFailures e' =
              (if \<forall>r\<in>set rs. \<not> fst r then consecutiveFailures e + int (length rs)
               else int (trailingFailures rs))"
    by blast
  have queue: "p_consecutiveFailures (queueParams monitor tid res) =
           (if success res then 0 else num_or (m_consecutiveFailures monitor) 0 + 1)"
    by (simp add: queueParams_def Let_def)
  from one many queue show ?thesis by blast
qed

theorem consecutiveFailures_counts_witness:
  "\<exists>e'. recordResults 1 [(False, 40, 60000), (True, 150, 120000), (False, 40, 180000),
            (False, 40, 240000)] [1 \<mapsto> freshEntry] 1 = Some e' \<and>
         consecutiveFailures e' = 2"
  using consecutiveFailures_counts [of "[1 \<mapsto> freshEntry]" 1 freshEntry True 0 0
      "[(False, 40, 60000), (True, 150, 120000), (False, 40, 180000), (False, 40, 240000)]"
      sampleMonitor 7 passedCheck]
  by (auto simp: freshEntry_def trailingFailures_def)

text \<open>
  C8. For an active monitor whose id has an entry, \<^verbatim>\<open>updateMonitor\<close> stores the old
  entry with its configuration fields (and the active flag) replaced, so the next run
  time, last status, last response time and failure count are those of before; for an
  inactive monitor it is \<^verbatim>\<open>removeMonitor\<close> of its id.
\<close>

theorem updateMonitor_frame:
  "(m_active monitor \<and> c (m_id monitor) = Some e \<longrightarrow>
      updateMonitor now monitor c =
        c(m_id monitor \<mapsto>
            e\<lparr> monitorId := m_id monitor, teamId := m_teamId monitor,
               url := m_url monitor, httpMethod := m_method monitor,
               intervalSec := m_intervalSec monitor,
               expectedCode := m_expectedCode monitor, timeout := m_timeout monitor,
               headers := m_headers monitor, body := m_body monitor,
               alertAfterFailures := m_alertAfterFailures monitor, active := True \<rparr>) \<and>
      (\<exists>e'. updateMonitor now monitor c (m_id monitor) = Some e' \<and>
         nextRunAt e' = nextRunAt e \<and> lastStatus e' = lastStatus e \<and>
         lastResponseMs e' = lastResponseMs e \<and>
         consecutiveFailures e' = consecutiveFailures e)) \<and>
   (\<not> m_active monitor \<longrightarrow>
      updateMonitor now monitor c = removeMonitor (m_id monitor) c)"
  by (cases e) (simp add: updateMonitor_def Let_def)

theorem updateMonitor_frame_witness:
  "(\<exists>e'. updateMonitor 99 (freshMonitor\<lparr> m_url := ''https://example.org/v2'' \<rparr>)
            [1 \<mapsto> freshEntry\<lparr> nextRunAt := 60000, lastStatus := Down, lastResponseMs := 40,
                                consecutiveFailures := 2 \<rparr>] 1 = Some e' \<and>
         nextRunAt e' = 60000 \<and> lastStatus e' = Down \<and> lastResponseMs e' = 40 \<and>
         consecutiveFailures e' = 2 \<and> url e' = ''https://example.org/v2'') \<and>
   updateMonitor 99 (freshMonitor\<lparr> m_active := False \<rparr>) [1 \<mapsto> freshEntry] =
     removeMonitor 1 [1 \<mapsto> freshEntry]"
  using updateMonitor_frame [of "freshMonitor\<lparr> m_url := ''https://example.org/v2'' \<rparr>"
      "[1 \<mapsto> freshEntry\<lparr> nextRunAt := 60000, lastStatus := Down, lastResponseMs := 40,
                            consecutiveFailures := 2 \<rparr>]"
      "freshEntry\<lparr> nextRunAt := 60000, lastStatus := Down, lastResponseMs := 40,
                   consecutiveFailures := 2 \<rparr>" 99]
    updateMonitor_frame [of "freshMonitor\<lparr> m_active := False \<rparr>" "[1 \<mapsto> freshEntry]"
      freshEntry 99]
  by (simp add: freshMonitor_def sampleMonitor_def freshEntry_def)

section \<open>Properties of the state machine\<close>

lemmas machine_defs = handleStatusChange_timer_def handleStatusChange_queue_def
  openIncident_timer_def openIncident_queue_def recover_timer_def recover_queue_def
  createDownIncident_def setCurrentIncident_def saveIncident_def findIncident_def pre_save_def
  alertThreshold_def num_or_def str_or_def updateMonitorDoc_def queueParams_def
  handleSslExpiryAlert_def alertDays_def

lemmas sample_defs = sampleMonitor_def freshMonitor_def sampleStore_def freshStore_def
  freshEntry_def failedCheck_def passedCheck_def sampleClock_def openIncident_def downStore_def
  sampleChannel_def sslCheckAt_def downParams_def upParams_def cronSample_def

lemma pre_save_id [simp]: "i_id (pre_save now inc) = i_id inc"
  by (simp add: pre_save_def)

lemma saveIncident_frame [simp]:
  "map i_id (incidents (saveIncident now inc s)) = map i_id (incidents s)"
  "alerts (saveIncident now inc s) = alerts s"
  "monitors (saveIncident now inc s) = monitors s"
  by (simp_all add: saveIncident_def)

lemma setCurrentIncident_frame [simp]:
  "incidents (setCurrentIncident mid v s) = incidents s"
  "alerts (setCurrentIncident mid v s) = alerts s"
  "(monitors (setCurrentIncident mid v s) k = None) = (monitors s k = None)"
  by (simp_all add: setCurrentIncident_def split: option.splits)

lemma setCurrentIncident_link:
  "monitors s mid = Some m \<Longrightarrow>
   monitors (setCurrentIncident mid v s) mid = Some (m\<lparr> m_currentIncidentId := v \<rparr>)"
  by (simp add: setCurrentIncident_def)

lemma updateMonitorDoc_frame [simp]:
  "incidents (updateMonitorDoc mid f s) = incidents s"
  "alerts (updateMonitorDoc mid f s) = alerts s"
  "(monitors (updateMonitorDoc mid f s) k = None) = (monitors s k = None)"
  by (simp_all add: updateMonitorDoc_def split: option.splits)

lemma recover_timer_frame:
  "map i_id (incidents (recover_timer clk p s)) = map i_id (incidents s)"
  "downAlerts (recover_timer clk p s) = downAlerts s"
  by (simp_all add: recover_timer_def downAlerts_def Let_def
      split: option.splits prod.splits if_splits)

lemma createDownIncident_result:
  "createDownIncident clk p s = (inc, s1) \<Longrightarrow>
     incidents s1 = incidents s @ [inc] \<and> monitors s1 = monitors s \<and> alerts s1 = alerts s \<and>
     i_id inc = nextIncidentId s \<and>
     i_status inc = Investigating \<and> severity inc = Major \<and> i_type inc = Auto \<and>
     i_monitorId inc = Some (m_id (p_monitor p)) \<and> resolvedAt inc = None"
  by (auto simp: createDownIncident_def Let_def pre_save_def)

lemma openIncident_timer_result:
  assumes "monitors s (m_id (p_monitor p)) = Some m"
  shows "\<exists>inc a. incidents (openIncident_timer clk p s) = incidents s @ [inc] \<and>
     i_id inc = nextIncidentId s \<and>
     i_status inc = Investigating \<and> severity inc = Major \<and> i_type inc = Auto \<and>
     i_monitorId inc = Some (m_id (p_monitor p)) \<and>
     monitors (openIncident_timer clk p s) (m_id (p_monitor p)) =
       Some (m\<lparr> m_currentIncidentId := Some (i_id inc) \<rparr>) \<and>
     alerts (openIncident_timer clk p s) = alerts s @ [a] \<and> a_type a = AlertDown \<and>
     a_teamId a = p_teamId p"
proof -
  obtain inc s1 where c: "createDownIncident clk p s = (inc, s1)"
    by (cases "createDownIncident clk p s")
  note r = createDownIncident_result [OF c]
  have m1: "monitors s1 (m_id (p_monitor p)) = Some m" using r assms by simp
  show ?thesis
    using r setCurrentIncident_link [OF m1, of "Some (i_id inc)"]
    by (simp add: openIncident_timer_def c Let_def)
qed

text \<open>
  C1. In the timer-driven worker, \<^verbatim>\<open>handleStatusChange\<close> creates an incident
  (status investigating, severity major, type auto), links it to the stored monitor
  through \<^verbatim>\<open>currentIncidentId\<close> and requests one down alert exactly when the new
  status is down and the failure count equals the threshold
  (\<^verbatim>\<open>alertAfterFailures || 1\<close>), or exceeds it while the monitor has no current
  incident. In every other case, so below the threshold and past it with an incident
  linked, no incident is added and no down alert is requested.
\<close>

theorem timer_incident_trigger:
  assumes stored: "monitors s (m_id (p_monitor p)) = Some (p_monitor p)"
  shows "(if p_newStatus p = Down \<and>
             (p_consecutiveFailures p = alertThreshold (p_monitor p) \<or>
              (p_consecutiveFailures p > alertThreshold (p_monitor p) \<and>
               m_currentIncidentId (p_monitor p) = None))
          then \<exists>inc a. incidents (handleStatusChange_timer clk p s) = incidents s @ [inc] \<and>
                 i_status inc = Investigating \<and> severity inc = Major \<and> i_type inc = Auto \<and>
                 i_monitorId inc = Some (m_id (p_monitor p)) \<and>
                 map_option m_currentIncidentId
                   (monitors (handleStatusChange_timer clk p s) (m_id (p_monitor p))) =
                   Some (Some (i_id inc)) \<and>
                 downAlerts (handleStatusChange_timer clk p s) = downAlerts s @ [a] \<and>
                 a_type a = AlertDown \<and> a_teamId a = p_teamId p
          else map i_id (incidents (handleStatusChange_timer clk p s)) = map i_id (incidents s) \<and>
               downAlerts (handleStatusChange_timer clk p s) = downAlerts s)"
proof (cases "p_newStatus p = Down \<and>
             (p_consecutiveFailures p = alertThreshold (p_monitor p) \<or>
              (p_consecutiveFailures p > alertThreshold (p_monitor p) \<and>
               m_currentIncidentId (p_monitor p) = None))")
  case True
  then have h: "handleStatusChange_timer clk p s = openIncident_timer clk p s"
    by (auto simp: handleStatusChange_timer_def Let_def)
  from openIncident_timer_result [OF stored, of clk] True show ?thesis
    unfolding h by (auto simp: downAlerts_def)
next
  case False
  then have h: "handleStatusChange_timer clk p s =
      (if p_statusChanged p \<and> p_newStatus p = Up \<and> p_previousStatus p = Some Down
       then recover_timer clk p s else s)"
    by (auto simp: handleStatusChange_timer_def Let_def)
  show ?thesis using False unfolding h by (simp add: recover_timer_frame)
qed

theorem timer_incident_trigger_witness:
  "map i_status (incidents (handleStatusChange_timer sampleClock (downParams sampleMonitor 1)
      sampleStore)) = [Investigating] \<and>
   map a_type (alerts (handleStatusChange_timer sampleClock (downParams sampleMonitor 1)
      sampleStore)) = [AlertDown] \<and>
   incidents (handleStatusChange_timer sampleClock (downParams freshMonitor 2) freshStore) = [] \<and>
   map i_id (incidents (handleStatusChange_timer sampleClock
      (downParams (sampleMonitor\<lparr> m_currentIncidentId := Some 0 \<rparr>) 2) downStore)) = [0]"
  using timer_incident_trigger [of sampleStore "downParams sampleMonitor 1" sampleClock]
    timer_incident_trigger [of freshStore "downParams freshMonitor 2" sampleClock]
    timer_incident_trigger [of downStore
      "downParams (sampleMonitor\<lparr> m_currentIncidentId := Some 0 \<rparr>) 2" sampleClock]
  by (simp add: machine_defs sample_defs downAlerts_def Let_def)

text \<open>
  The spec's scenario for a monitor that alerts after three failures, run through the
  timer pipeline: no incident after the first and second failure, one major incident
  after the third, still one after a fourth, and a passed check resolves it.
\<close>

lemma scenario_three_failures:
  "incidents (snd (checkMonitor sampleClock 0 freshEntry failedCheck
      ([1 \<mapsto> freshEntry], freshStore))) = []"
  "incidents (snd (checkMonitor sampleClock 60000 freshEntry failedCheck
      (checkMonitor sampleClock 0 freshEntry failedCheck
        ([1 \<mapsto> freshEntry], freshStore)))) = []"
  "map (\<lambda>i. (i_status i, severity i))
     (incidents (snd (checkMonitor sampleClock 120000 freshEntry failedCheck
       (checkMonitor sampleClock 60000 freshEntry failedCheck
         (checkMonitor sampleClock 0 freshEntry failedCheck
           ([1 \<mapsto> freshEntry], freshStore)))))) = [(Investigating, Major)]"
  "map (\<lambda>i. (i_status i, severity i))
     (incidents (snd (checkMonitor sampleClock 180000 freshEntry failedCheck
       (checkMonitor sampleClock 120000 freshEntry failedCheck
         (checkMonitor sampleClock 60000 freshEntry failedCheck
           (checkMonitor sampleClock 0 freshEntry failedCheck
             ([1 \<mapsto> freshEntry], freshStore))))))) = [(Investigating, Major)]"
  "map (\<lambda>i. (i_status i, severity i))
     (incidents (snd (checkMonitor sampleClock 180000 freshEntry passedCheck
       (checkMonitor sampleClock 120000 freshEntry failedCheck
         (checkMonitor sampleClock 60000 freshEntry failedCheck
           (checkMonitor sampleClock 0 freshEntry failedCheck
             ([1 \<mapsto> freshEntry], freshStore))))))) = [(Resolved, Major)]"
  by (simp_all add: checkMonitor_def updateAfterCheck_def machine_defs sample_defs Let_def)

text \<open>
  Outside the catch-up state (down, past the threshold, no incident linked) the two
  state machines create and resolve the same incidents, leave the same monitors and
  request alerts of the same types.
\<close>

lemma modes_agree_outside_catch_up:
  assumes "\<not> (p_newStatus p = Down \<and> p_consecutiveFailures p > alertThreshold (p_monitor p)
              \<and> m_currentIncidentId (p_monitor p) = None)"
  shows "incidents (handleStatusChange_timer clk p s) = incidents (handleStatusChange_queue clk p s)"
    and "monitors (handleStatusChange_timer clk p s) = monitors (handleStatusChange_queue clk p s)"
    and "map a_type (alerts (handleStatusChange_timer clk p s)) =
         map a_type (alerts (handleStatusChange_queue clk p s))"
  using assms
  by (auto simp: handleStatusChange_timer_def handleStatusChange_queue_def openIncident_timer_def
      openIncident_queue_def recover_timer_def recover_queue_def Let_def
      split: option.splits prod.splits)

text \<open>
  C3. The two execution modes do not decide alike. A stored monitor that alerts after
  one failure, has one failure recorded and no incident linked, fails one more check:
  the timer-driven pipeline (cache entry built by \<^verbatim>\<open>addMonitor\<close>, then
  \<^verbatim>\<open>checkMonitor\<close>) creates an incident and requests a down alert, the
  queue-backed \<^verbatim>\<open>processMonitorCheck\<close> creates none and requests none.
\<close>

theorem modes_disagree_on_missed_incident:
  "map i_status (incidents (snd (checkMonitor sampleClock 0
       (the (addMonitor 0 sampleMonitor Map.empty 1)) failedCheck
       (addMonitor 0 sampleMonitor Map.empty, sampleStore)))) = [Investigating] \<and>
   map a_type (alerts (snd (checkMonitor sampleClock 0
       (the (addMonitor 0 sampleMonitor Map.empty 1)) failedCheck
       (addMonitor 0 sampleMonitor Map.empty, sampleStore)))) = [AlertDown] \<and>
   incidents (processMonitorCheck sampleClock 1 7 failedCheck sampleStore) = [] \<and>
   alerts (processMonitorCheck sampleClock 1 7 failedCheck sampleStore) = []"
  by (simp add: checkMonitor_def processMonitorCheck_def addMonitor_def updateAfterCheck_def
      machine_defs sample_defs Let_def)

text \<open>What each mode computes for \<^verbatim>\<open>statusChanged\<close>.\<close>

lemma statusChanged_timer:
  assumes "c mid = Some e"
  shows "map_option statusChanged (fst (updateAfterCheck mid ok ms nxt c)) =
     Some (lastStatus e \<noteq> (if ok then Up else Down))"
  using assms by (simp add: updateAfterCheck_def Let_def)

lemma statusChanged_queue:
  "p_statusChanged (queueParams m tid r) =
     (m_lastStatus m \<noteq> Some (p_newStatus (queueParams m tid r)) \<and>
      m_lastStatus m \<noteq> Some Pending)"
  by (simp add: queueParams_def Let_def)

text \<open>
  C4. For the first check of a fresh monitor (previous status pending) that passes,
  the cache of the timer mode reports \<^verbatim>\<open>statusChanged = true\<close>, while the queue
  mode, which has the guard against pending, computes \<^verbatim>\<open>false\<close>.
\<close>

theorem timer_first_check_statusChanged:
  "map_option statusChanged (fst (updateAfterCheck 1 True 150 60000 [1 \<mapsto> freshEntry]))
     = Some True \<and>
   map_option previousStatus (fst (updateAfterCheck 1 True 150 60000 [1 \<mapsto> freshEntry]))
     = Some Pending \<and>
   map_option newStatus (fst (updateAfterCheck 1 True 150 60000 [1 \<mapsto> freshEntry]))
     = Some Up \<and>
   p_statusChanged (queueParams freshMonitor 7 passedCheck) = False"
  by (simp add: updateAfterCheck_def machine_defs sample_defs Let_def)

text \<open>
  What the recovery branch of either worker leaves in the incident it resolves: the
  resolution time is the first clock reading, the duration is counted from the second.
\<close>

lemma find_replace:
  assumes "find (\<lambda>i. i_id i = k) xs = Some x" and "i_id y = k"
  shows "find (\<lambda>i. i_id i = k) (map (\<lambda>i. if i_id i = k then y else i) xs) = Some y"
  using assms by (induction xs) (auto split: if_splits)

lemma findIncident_id: "findIncident k s = Some x \<Longrightarrow> i_id x = k"
  by (auto simp: findIncident_def find_Some_iff)

lemma recovery_resolves:
  assumes "p_statusChanged p" and "p_newStatus p = Up" and "p_previousStatus p = Some Down"
    and "m_currentIncidentId (p_monitor p) = Some k"
    and "findIncident k s = Some x" and "i_status x \<noteq> Resolved"
  shows "findIncident k (handleStatusChange_timer clk p s) =
           Some (x\<lparr> i_status := Resolved, resolvedAt := Some (at_resolved clk),
                    duration := Some (at_duration clk - startedAt x),
                    timeline := timeline x @ [\<lparr> t_status = Resolved,
                      t_message = ''Automatically resolved - Monitor is back online'' \<rparr>] \<rparr>)"
    and "findIncident k (handleStatusChange_queue clk p s) =
           Some (x\<lparr> i_status := Resolved, resolvedAt := Some (at_resolved clk),
                    duration := Some (at_duration clk - startedAt x),
                    timeline := timeline x @ [\<lparr> t_status = Resolved,
                      t_message = ''Automatically resolved - Monitor is back online'' \<rparr>] \<rparr>)"
proof -
  let ?y = "x\<lparr> i_status := Resolved, resolvedAt := Some (at_resolved clk),
                    duration := Some (at_duration clk - startedAt x),
                    timeline := timeline x @ [\<lparr> t_status = Resolved,
                      t_message = ''Automatically resolved - Monitor is back online'' \<rparr>] \<rparr>"
  have id: "i_id x = k" using assms(5) by (rule findIncident_id)
  have y: "pre_save (at_save clk) ?y = ?y" by (simp add: pre_save_def)
  have f: "find (\<lambda>i. i_id i = k) (map (\<lambda>i. if i_id i = k then ?y else i) (incidents s)) = Some ?y"
    using assms(5) id by (intro find_replace) (simp_all add: findIncident_def)
  have f': "find (\<lambda>i. i_id i = k)
      (map (\<lambda>i. if i_id i = k then pre_save (at_save clk) ?y else i) (incidents s)) = Some ?y"
    using f by (simp only: y)
  show "findIncident k (handleStatusChange_timer clk p s) = Some ?y"
    using assms f' id
    by (simp add: handleStatusChange_timer_def recover_timer_def Let_def findIncident_def
        saveIncident_def split: prod.splits)
  show "findIncident k (handleStatusChange_queue clk p s) = Some ?y"
    using assms f' id
    by (simp add: handleStatusChange_queue_def recover_queue_def Let_def findIncident_def
        saveIncident_def split: prod.splits)
qed

text \<open>
  C9. When one millisecond passes between the two clock readings of the recovery
  branch, the resolved incident (started at 0) has \<^verbatim>\<open>resolvedAt = 1000\<close> and
  \<^verbatim>\<open>duration = 1001\<close>, which is not \<^verbatim>\<open>resolvedAt - startedAt\<close>.
\<close>

theorem recovery_duration_uses_second_clock_read:
  "map (\<lambda>i. (i_status i, startedAt i, resolvedAt i, duration i))
     (incidents (handleStatusChange_timer sampleClock
        (upParams (sampleMonitor\<lparr> m_currentIncidentId := Some 0 \<rparr>)) downStore))
     = [(Resolved, 0, Some 1000, Some 1001)] \<and>
   map (\<lambda>i. (i_status i, startedAt i, resolvedAt i, duration i))
     (incidents (handleStatusChange_queue sampleClock
        (upParams (sampleMonitor\<lparr> m_currentIncidentId := Some 0 \<rparr>)) downStore))
     = [(Resolved, 0, Some 1000, Some 1001)]"
  by (simp add: machine_defs sample_defs Let_def)

section \<open>Properties of the alert dispatcher\<close>

text \<open>
  Whether \<^verbatim>\<open>sendToChannel\<close> calls a sender, and whether it is fulfilled, does not
  depend on the channel's cooldown or on the time of its last alert.
\<close>

lemma sendToChannel_ignores_cooldown:
  "o_attempted (sendToChannel now (\<lambda>c. res) (ch\<lparr> cooldownMinutes := cd, lastAlertAt := la \<rparr>) ty) =
   o_attempted (sendToChannel now (\<lambda>c. res) ch ty)"
  "o_fulfilled (sendToChannel now (\<lambda>c. res) (ch\<lparr> cooldownMinutes := cd, lastAlertAt := la \<rparr>) ty) =
   o_fulfilled (sendToChannel now (\<lambda>c. res) ch ty)"
  by (simp_all add: sendToChannel_def Let_def split: sum.splits bool.splits option.splits)

text \<open>
  C2. A channel with a cooldown of five minutes receives a down alert at time 0 and a
  second one a minute later (60000 ms): the sender is called both times and
  \<^verbatim>\<open>lastAlertAt\<close> moves to the time of the second call.
\<close>

theorem second_alert_within_cooldown_is_delivered:
  "map cooldownMinutes [sampleChannel] = [5] \<and>
   snd (sendAlert 0 (\<lambda>c. None) 7 AlertDown [sampleChannel]) = [3] \<and>
   map lastAlertAt (fst (sendAlert 0 (\<lambda>c. None) 7 AlertDown [sampleChannel])) = [Some 0] \<and>
   snd (sendAlert 60000 (\<lambda>c. None) 7 AlertDown
          (fst (sendAlert 0 (\<lambda>c. None) 7 AlertDown [sampleChannel]))) = [3] \<and>
   map lastAlertAt (fst (sendAlert 60000 (\<lambda>c. None) 7 AlertDown
          (fst (sendAlert 0 (\<lambda>c. None) 7 AlertDown [sampleChannel])))) = [Some 60000]"
  by (simp add: sendToChannel_def prepareSend_def subscribed_def sample_defs Let_def)

section \<open>Properties of the keyword check\<close>

text \<open>
  \<open>includesStr\<close> is containment: the keyword occurs in the body between some prefix
  and some suffix.
\<close>

lemma includesStr_iff: "includesStr s kw \<longleftrightarrow> (\<exists>xs ys. s = xs @ kw @ ys)"
proof (induction s)
  case Nil
  then show ?case by simp
next
  case (Cons c cs)
  show ?case
  proof
    assume "includesStr (c # cs) kw"
    then consider "take (length kw) (c # cs) = kw" | "includesStr cs kw" by auto
    then show "\<exists>xs ys. c # cs = xs @ kw @ ys"
    proof cases
      case 1
      then have "c # cs = [] @ kw @ drop (length kw) (c # cs)"
        by (metis append_Nil append_take_drop_id)
      then show ?thesis by blast
    next
      case 2
      with Cons.IH obtain xs ys where "cs = xs @ kw @ ys" by blast
      then have "c # cs = (c # xs) @ kw @ ys" by simp
      then show ?thesis by blast
    qed
  next
    assume "\<exists>xs ys. c # cs = xs @ kw @ ys"
    then obtain xs ys where eq: "c # cs = xs @ kw @ ys" by blast
    show "includesStr (c # cs) kw"
    proof (cases xs)
      case Nil
      with eq have "take (length kw) (c # cs) = kw" by simp
      then show ?thesis by simp
    next
      case (Cons x xs')
      with eq have "cs = xs' @ kw @ ys" by simp
      with Cons.IH show ?thesis by auto
    qed
  qed
qed

text \<open>
  C5, as stated, fails: a response with status 404 whose body contains the keyword
  makes a \<^verbatim>\<open>contains\<close> check fail. The sample text is ASCII, where the built-in
  lowering is \<open>asciiLowerCase\<close>.
\<close>

theorem keyword_status_counterexample:
  "includesStr (asciiLowerCase ''All OK'') (asciiLowerCase ''ok'') \<and>
   \<not> success (checkKeyword asciiLowerCase
        \<lparr> keyword = Some ''ok'', keywordType = Some ''contains'' \<rparr> 12
        (Completed 404 (TextData ''All OK'')))"
  by code_simp

text \<open>
  C5, amended. For a keyword monitor with a non-empty keyword whose request
  completes, the check succeeds exactly when the status code is at least 200 and below
  400 and the body, after \<^verbatim>\<open>toLowerCase\<close> on body and keyword, contains the
  keyword (type \<^verbatim>\<open>contains\<close>, also when the type is unset) or does not contain it
  (type \<^verbatim>\<open>not_contains\<close>). A completed response with any other status code fails
  the check with the error \<^verbatim>\<open>HTTP <code>\<close>, whatever the body holds. This holds
  for whatever \<^verbatim>\<open>toLowerCase\<close> computes, so for the built-in on any text.
\<close>

theorem checkKeyword_decision:
  assumes "keyword monitor = Some kw" and "kw \<noteq> []"
  shows "success (checkKeyword lower monitor elapsed (Completed code dat)) =
     (200 \<le> code \<and> code < 400 \<and>
      (if str_or (keywordType monitor) ''contains'' = ''contains''
       then includesStr (lower (case dat of TextData t \<Rightarrow> t | JsonData j \<Rightarrow> j)) (lower kw)
       else str_or (keywordType monitor) ''contains'' = ''not_contains'' \<and>
            \<not> includesStr (lower (case dat of TextData t \<Rightarrow> t | JsonData j \<Rightarrow> j)) (lower kw)))
     \<and> (code < 200 \<or> 400 \<le> code \<longrightarrow>
          error (checkKeyword lower monitor elapsed (Completed code dat))
            = Some (''HTTP '' @ showInt code))"
  using assms by (auto simp: checkKeyword_def Let_def)

lemma sample_keyword_found: "includesStr (asciiLowerCase ''All OK'') (asciiLowerCase ''ok'')"
  by code_simp

lemma sample_status_text: "showInt 404 = ''404''"
  by code_simp

theorem checkKeyword_decision_witness:
  "success (checkKeyword asciiLowerCase \<lparr> keyword = Some ''ok'', keywordType = None \<rparr> 12
      (Completed 200 (TextData ''All OK''))) \<and>
   \<not> success (checkKeyword asciiLowerCase
      \<lparr> keyword = Some ''ok'', keywordType = Some ''not_contains'' \<rparr> 12
      (Completed 200 (TextData ''All OK''))) \<and>
   error (checkKeyword asciiLowerCase \<lparr> keyword = Some ''ok'', keywordType = Some ''contains'' \<rparr> 12
      (Completed 404 (TextData ''All OK''))) = Some ''HTTP 404''"
  using checkKeyword_decision [where monitor = "\<lparr> keyword = Some ''ok'', keywordType = None \<rparr>"
      and kw = "''ok''" and lower = asciiLowerCase and elapsed = 12 and code = 200
      and dat = "TextData ''All OK''"]
    checkKeyword_decision [where
      monitor = "\<lparr> keyword = Some ''ok'', keywordType = Some ''not_contains'' \<rparr>"
      and kw = "''ok''" and lower = asciiLowerCase and elapsed = 12 and code = 200
      and dat = "TextData ''All OK''"]
    checkKeyword_decision [where
      monitor = "\<lparr> keyword = Some ''ok'', keywordType = Some ''contains'' \<rparr>"
      and kw = "''ok''" and lower = asciiLowerCase and elapsed = 12 and code = 404
      and dat = "TextData ''All OK''"]
  by (simp add: str_or_def sample_keyword_found sample_status_text)

section \<open>Properties of the SSL expiry alert\<close>

lemma handleStatusChange_queue_ssl:
  "sslAlerts (handleStatusChange_queue clk p s) = sslAlerts s"
  "(monitors (handleStatusChange_queue clk p s) k = None) = (monitors s k = None)"
  by (simp_all add: handleStatusChange_queue_def openIncident_queue_def recover_queue_def
      createDownIncident_def sslAlerts_def Let_def split: option.splits prod.splits)

lemma handleSslExpiryAlert_monitors [simp]:
  "monitors (handleSslExpiryAlert m info tid s) = monitors s"
  by (simp add: handleSslExpiryAlert_def)

lemma processMonitorCheck_ssl:
  assumes "monitors s mid = Some m"
  shows "sslAlerts (processMonitorCheck clk mid tid r s) =
     sslAlerts s @
       (if sslThreshold r
        then [\<lparr> a_type = AlertSslExpiry, a_teamId = tid, a_monitorId = Some (m_id m),
                a_monitorName = m_name m, a_url = m_url m, a_error = None,
                a_responseMs = None, a_downtimeDuration = None,
                a_daysRemaining = map_option daysRemaining (sslInfo r),
                a_expiryDate = map_option expiresAt (sslInfo r) \<rparr>]
        else [])"
proof (cases "sslInfo r")
  case None
  then show ?thesis using assms
    by (simp add: processMonitorCheck_def Let_def sslThreshold_def handleStatusChange_queue_ssl
        sslAlerts_def[of "_\<lparr> history := _ \<rparr>"] sslAlerts_def[of "updateMonitorDoc _ _ _"]
        sslAlerts_def[of s])
next
  case (Some info)
  have "sslAlerts (handleSslExpiryAlert m info tid s') =
      sslAlerts s' @ (if daysRemaining info \<in> set alertDays then
         [\<lparr> a_type = AlertSslExpiry, a_teamId = tid, a_monitorId = Some (m_id m),
              a_monitorName = m_name m, a_url = m_url m, a_error = None,
              a_responseMs = None, a_downtimeDuration = None,
              a_daysRemaining = Some (daysRemaining info),
              a_expiryDate = Some (expiresAt info) \<rparr>] else [])" for s'
    by (simp add: handleSslExpiryAlert_def sslAlerts_def)
  moreover have "daysRemaining info \<in> set alertDays \<Longrightarrow> daysRemaining info \<le> 30"
    by (auto simp: alertDays_def)
  ultimately show ?thesis using assms Some
    by (auto simp: processMonitorCheck_def Let_def sslThreshold_def handleStatusChange_queue_ssl
        alertDays_def
        sslAlerts_def[of "_\<lparr> history := _ \<rparr>"] sslAlerts_def[of "updateMonitorDoc _ _ _"]
        sslAlerts_def[of s])
qed

lemma processMonitorCheck_keeps_monitor:
  "(monitors (processMonitorCheck clk mid tid r s) k = None) = (monitors s k = None)"
  by (simp add: processMonitorCheck_def Let_def handleStatusChange_queue_ssl
      split: option.splits)

lemma processChecks_ssl_count:
  assumes "monitors s mid = Some m"
  shows "length (sslAlerts (processChecks clk mid tid rs s)) =
     length (sslAlerts s) + length (filter sslThreshold rs)"
  using assms
proof (induction rs arbitrary: s m)
  case Nil
  then show ?case by simp
next
  case (Cons r rs)
  from Cons.prems have "monitors (processMonitorCheck clk mid tid r s) mid \<noteq> None"
    by (simp add: processMonitorCheck_keeps_monitor)
  then obtain m' where m': "monitors (processMonitorCheck clk mid tid r s) mid = Some m'"
    by blast
  have "length (sslAlerts (processMonitorCheck clk mid tid r s)) =
      length (sslAlerts s) + (if sslThreshold r then 1 else 0)"
    by (simp add: processMonitorCheck_ssl [OF Cons.prems])
  with Cons.IH [OF m'] show ?case by simp
qed

text \<open>
  C6, as stated, fails: two checks of one monitor a minute apart both see thirty days
  remaining, and each requests an sslExpiry alert for the threshold 30.
\<close>

theorem ssl_alert_repeats_counterexample:
  "map a_daysRemaining (sslAlerts (processChecks sampleClock 1 7
      [sslCheckAt 0, sslCheckAt 60000] sampleStore)) = [Some 30, Some 30] \<and>
   map a_monitorId (sslAlerts (processChecks sampleClock 1 7
      [sslCheckAt 0, sslCheckAt 60000] sampleStore)) = [Some 1, Some 1]"
  by (simp add: processMonitorCheck_def sslAlerts_def sslDaysRemaining_def machine_defs
      sample_defs Let_def)

text \<open>
  C6, amended. In the queue-backed worker a completed check of a stored monitor
  requests an sslExpiry alert exactly when the check produced SSL metadata whose
  days remaining are one of 30, 14, 7, 3, 1, and it requests one at every such check:
  over any sequence of checks of the monitor, the number of sslExpiry requests is the
  number of checks whose days remaining are a threshold value.
\<close>

theorem ssl_alert_per_check:
  assumes "monitors s mid = Some m"
  shows "sslAlerts (processMonitorCheck clk mid tid r s) =
     sslAlerts s @
       (if sslThreshold r
        then [\<lparr> a_type = AlertSslExpiry, a_teamId = tid, a_monitorId = Some (m_id m),
                a_monitorName = m_name m, a_url = m_url m, a_error = None,
                a_responseMs = None, a_downtimeDuration = None,
                a_daysRemaining = map_option daysRemaining (sslInfo r),
                a_expiryDate = map_option expiresAt (sslInfo r) \<rparr>]
        else []) \<and>
     length (sslAlerts (processChecks clk mid tid rs s)) =
       length (sslAlerts s) + length (filter sslThreshold rs)"
  using processMonitorCheck_ssl [OF assms] processChecks_ssl_count [OF assms] by simp

theorem ssl_alert_per_check_witness:
  "length (sslAlerts (processChecks sampleClock 1 7
       [sslCheckAt 0, passedCheck, sslCheckAt 86400000, sslCheckAt 60000] sampleStore)) = 2"
  using ssl_alert_per_check [of sampleStore 1 sampleMonitor sampleClock 7 passedCheck
      "[sslCheckAt 0, passedCheck, sslCheckAt 86400000, sslCheckAt 60000]"]
  by (simp add: sampleStore_def sslAlerts_def sslThreshold_def sslCheckAt_def passedCheck_def
      sslDaysRemaining_def)

section \<open>Properties of cron expressions and dates\<close>













text \<open>Date arithmetic in a zone of constant offset.\<close>

lemma fixedZone_times [simp]:
  "localTime (fixedZone off) t = t + off"
  "utcTime (fixedZone off) t = t - off"
  by (simp_all add: localTime_def utcTime_def fixedZone_def)












section \<open>Properties of the passive checks\<close>







end
